theory Spec2Isabelle
  imports Main "HOL-Library.Sublist"
begin

section \<open>The WebRTC client of static/webrtcclient.js\<close>

text \<open>
  The script keeps its session in four module-level variables (\<open>peerConnection\<close>,
  \<open>dataChannel\<close>, \<open>room\<close>, \<open>socket\<close>) and in four properties of the page
  (\<open>localVideo.srcObject\<close>, \<open>remoteVideo.srcObject\<close>, \<open>dataChannelInput.value\<close>,
  \<open>dataChannelOutput.value\<close>). Every function of the script is embedded as a function
  from the state before to an outcome and the state after; a thrown exception (or the
  rejection of an \<open>async\<close> function) is the outcome \<open>Inl\<close>, and the state it returns
  keeps every assignment made before the throw, as in JavaScript.

  The browser and the signalling library are not part of the script. What the script
  asks of them is recorded, in program order, in the field \<open>trace\<close>; what they answer
  (the media streams, the text typed at the prompt, the results of the asynchronous
  operations of the peer connection) is the parameter \<open>platform\<close> of the functions
  that ask. Console output changes nothing and is left out. The four elements of the
  page are taken to exist. A function that awaits is run to its end in one step.
\<close>

subsection \<open>Values\<close>

text \<open>A JavaScript variable holds \<open>undefined\<close>, \<open>null\<close> or an object.\<close>

datatype 'a nullable = Undefined | Null | Obj 'a

datatype error =
    TypeError           \<comment> \<open>a property read on \<open>undefined\<close> or \<open>null\<close>\<close>
  | ChannelNotOpen      \<comment> \<open>the channel's send primitive refusing a payload\<close>
  | Rejected string     \<comment> \<open>any other exception or rejection raised by the platform\<close>

type_synonym sdp = string
type_synonym candidate = string
type_synonym track = nat
type_synonym stream = "track list"

datatype ready_state = Connecting | Open | Closing | Closed

record dc =
  dc_label :: string
  readyState :: ready_state
  dc_sent :: "string list"    \<comment> \<open>payloads the send primitive accepted, oldest first\<close>

datatype pc_op =
    AddTrack track stream
  | CreateDataChannel string
  | CreateOffer
  | CreateAnswer
  | SetLocalDescription sdp
  | SetRemoteDescription sdp
  | AddIceCandidate candidate
  | Close

text \<open>A peer connection is known by the operations invoked on it so far.\<close>

record pc =
  pc_log :: "pc_op list"

datatype sock = Socket

datatype payload = PRoom "string nullable" | PSdp sdp | PCandidate candidate

datatype effect =
    GetUserMedia
  | GetDisplayMedia
  | Io
  | Prompt
  | NewPeerConnection
  | Emit string payload
  | PcCall pc_op
  | DcSend string
  | DcClose
  | TrackStop track

record state =
  peerConnection :: "pc nullable"
  dataChannel :: "dc nullable"
  room :: "string nullable"
  socket :: "sock nullable"
  localVideo :: "stream nullable"       \<comment> \<open>\<open>localVideo.srcObject\<close>\<close>
  remoteVideo :: "stream nullable"      \<comment> \<open>\<open>remoteVideo.srcObject\<close>\<close>
  dataChannelInput :: string             \<comment> \<open>\<open>dataChannelInput.value\<close>\<close>
  dataChannelOutput :: string            \<comment> \<open>\<open>dataChannelOutput.value\<close>\<close>
  ended :: "track set"                   \<comment> \<open>the tracks that have been stopped\<close>
  trace :: "effect list"

record platform =
  getUserMedia :: "error + stream"
  getDisplayMedia :: "error + stream"
  prompt :: "string option"              \<comment> \<open>\<open>None\<close>: the prompt was cancelled and gave \<open>null\<close>\<close>
  addTrack :: "pc \<Rightarrow> track \<Rightarrow> stream \<Rightarrow> error option"
  createDataChannel :: "pc \<Rightarrow> string \<Rightarrow> error + dc"
  createOffer :: "pc \<Rightarrow> error + sdp"
  createAnswer :: "pc \<Rightarrow> error + sdp"
  setLocalDescription :: "pc \<Rightarrow> sdp \<Rightarrow> error option"
  setRemoteDescription :: "pc \<Rightarrow> sdp \<Rightarrow> error option"

definition init_state :: state where
  "init_state = \<lparr> peerConnection = Undefined, dataChannel = Undefined, room = Undefined,
     socket = Undefined, localVideo = Null, remoteVideo = Null,
     dataChannelInput = [], dataChannelOutput = [], ended = {}, trace = [] \<rparr>"

subsection \<open>Sequencing\<close>

type_synonym 'a comp = "state \<Rightarrow> (error + 'a) \<times> state"

definition andThen :: "'a comp \<Rightarrow> ('a \<Rightarrow> 'b comp) \<Rightarrow> 'b comp" where
  "andThen m f st = (case m st of (Inl e, st') \<Rightarrow> (Inl e, st') | (Inr a, st') \<Rightarrow> f a st')"

definition ret :: "'a \<Rightarrow> 'a comp" where
  "ret a st = (Inr a, st)"

definition await :: "error + 'a \<Rightarrow> 'a comp" where
  "await r st = (r, st)"

definition await_unit :: "error option \<Rightarrow> unit comp" where
  "await_unit r st = (case r of Some e \<Rightarrow> (Inl e, st) | None \<Rightarrow> (Inr (), st))"

definition deref :: "'a nullable \<Rightarrow> 'a comp" where
  "deref r st = (case r of Obj x \<Rightarrow> (Inr x, st) | _ \<Rightarrow> (Inl TypeError, st))"

definition perform :: "effect \<Rightarrow> state \<Rightarrow> state" where
  "perform e st = st\<lparr> trace := trace st @ [e] \<rparr>"

text \<open>\<open>r.emit(event, data)\<close> on the value \<open>r\<close> of a socket variable.\<close>

definition emit :: "sock nullable \<Rightarrow> string \<Rightarrow> payload \<Rightarrow> unit comp" where
  "emit r event data st =
     (case r of Obj sk \<Rightarrow> (Inr (), perform (Emit event data) st) | _ \<Rightarrow> (Inl TypeError, st))"

text \<open>
  A method call \<open>r.op(...)\<close> on the value \<open>r\<close> of the variable \<open>peerConnection\<close> (read
  from the variable, or received as an argument that aliases it). The object is shared, so
  the call shows in the variable. The result is the connection as it was before the call,
  from which the platform decides the outcome.
\<close>

definition pc_method :: "pc nullable \<Rightarrow> pc_op \<Rightarrow> pc comp" where
  "pc_method r op st =
     (case r of
        Obj c \<Rightarrow> (Inr c, perform (PcCall op) (st\<lparr> peerConnection := Obj (c\<lparr> pc_log := pc_log c @ [op] \<rparr>) \<rparr>))
      | _ \<Rightarrow> (Inl TypeError, st))"

text \<open>
  Modelled from the spec: the send primitive of the engine's channel, which the script
  calls and does not define. It "fails with ChannelNotOpen if invoked before open or
  after close"; a payload sent on an open channel is accepted.
\<close>

definition channel_send :: "dc \<Rightarrow> string \<Rightarrow> error + dc" where
  "channel_send ch m =
     (if readyState ch = Open then Inr (ch\<lparr> dc_sent := dc_sent ch @ [m] \<rparr>) else Inl ChannelNotOpen)"

text \<open>\<open>dataChannel.send(m)\<close> on the module-level variable.\<close>

definition dataChannel_send :: "string \<Rightarrow> unit comp" where
  "dataChannel_send m st =
     (case dataChannel st of
        Obj ch \<Rightarrow>
          (case channel_send ch m of
             Inr ch' \<Rightarrow> (Inr (), perform (DcSend m) (st\<lparr> dataChannel := Obj ch' \<rparr>))
           | Inl e \<Rightarrow> (Inl e, perform (DcSend m) st))
      | _ \<Rightarrow> (Inl TypeError, st))"

subsection \<open>1. Make call\<close>

definition enable_camera :: "platform \<Rightarrow> stream nullable comp" where
  "enable_camera p st =
     (let st1 = perform GetUserMedia st in
      case getUserMedia p of
        Inr stream \<Rightarrow> (Inr (Obj stream), st1\<lparr> localVideo := Obj stream \<rparr>)
      | Inl error \<Rightarrow>
          (let st2 = perform GetDisplayMedia st1 in
           case getDisplayMedia p of
             Inr stream \<Rightarrow> (Inr (Obj stream), st2\<lparr> localVideo := Obj stream \<rparr>)
           | Inl err \<Rightarrow> (Inr Undefined, st2\<lparr> localVideo := Undefined \<rparr>)))"

subsection \<open>2. Signaling connection\<close>

definition create_signaling_connection :: "sock comp" where
  "create_signaling_connection st = (Inr Socket, perform Io st)"

definition call_room :: "platform \<Rightarrow> sock nullable \<Rightarrow> unit comp" where
  "call_room p sk st =
     (let st1 = (perform Prompt st)\<lparr> room := (case prompt p of None \<Rightarrow> Null | Some r \<Rightarrow> Obj r) \<rparr> in
      if room st1 \<noteq> Obj [] then emit sk ''join'' (PRoom (room st1)) st1 else (Inr (), st1))"

subsection \<open>3. PeerConnection creation\<close>

text \<open>The \<open>forEach\<close> over the tracks of the local stream; the connection is still local.\<close>

primrec addTracks :: "platform \<Rightarrow> stream \<Rightarrow> track list \<Rightarrow> pc \<Rightarrow> pc comp" where
  "addTracks p localStream [] c st = (Inr c, st)"
| "addTracks p localStream (t # ts) c st =
     (let st1 = perform (PcCall (AddTrack t localStream)) st;
          c1 = c\<lparr> pc_log := pc_log c @ [AddTrack t localStream] \<rparr>
      in case addTrack p c t localStream of
           Some e \<Rightarrow> (Inl e, st1)
         | None \<Rightarrow> addTracks p localStream ts c1 st1)"

definition create_peerconnection :: "platform \<Rightarrow> stream nullable \<Rightarrow> pc comp" where
  "create_peerconnection p localStream st =
     (let st1 = perform NewPeerConnection st; c = \<lparr> pc_log = [] \<rparr> in
      case localStream of
        Obj s \<Rightarrow> addTracks p s s c st1
      | _ \<Rightarrow> (Inl TypeError, st1))"

definition call :: "platform \<Rightarrow> unit comp" where
  "call p =
     andThen (enable_camera p) (\<lambda>localStream.
     andThen create_signaling_connection (\<lambda>sk.
     andThen (\<lambda>st. (Inr (), st\<lparr> socket := Obj sk \<rparr>)) (\<lambda>_.
     andThen (\<lambda>st. call_room p (socket st) st) (\<lambda>_.
     andThen (create_peerconnection p localStream) (\<lambda>c.
     (\<lambda>st. (Inr (), st\<lparr> peerConnection := Obj c \<rparr>)))))))"

subsection \<open>7. DataChannel\<close>

text \<open>
  \<open>createDataChannel\<close> is synchronous; what it throws ends the function as a rejection
  would. The two handlers it then attaches to the channel are \<open>handle_datachannel_open\<close>
  and \<open>handle_datachannel_message\<close> below.
\<close>

definition create_datachannel :: "platform \<Rightarrow> pc nullable \<Rightarrow> unit comp" where
  "create_datachannel p r =
     andThen (pc_method r (CreateDataChannel ''data channel'')) (\<lambda>c.
     andThen (await (createDataChannel p c ''data channel'')) (\<lambda>ch.
     (\<lambda>st. (Inr (), st\<lparr> dataChannel := Obj ch \<rparr>))))"

text \<open>
  The event the engine raises when the peer has created a channel. It carries the
  channel as its property \<open>channel\<close> and has no property \<open>dataChannel\<close>, so the read
  \<open>event.dataChannel\<close> gives \<open>undefined\<close>.
\<close>

record datachannel_event =
  channel :: dc

definition event_dataChannel :: "datachannel_event \<Rightarrow> dc nullable" where
  "event_dataChannel event = Undefined"

text \<open>
  The variable is assigned first; attaching \<open>onopen\<close> to what it then holds throws
  when that is not an object, before \<open>onmessage\<close> is attached.
\<close>

definition handle_remote_datachannel :: "datachannel_event \<Rightarrow> unit comp" where
  "handle_remote_datachannel event st =
     (let st1 = st\<lparr> dataChannel := event_dataChannel event \<rparr> in
      case dataChannel st1 of
        Obj ch \<Rightarrow> (Inr (), st1)
      | _ \<Rightarrow> (Inl TypeError, st1))"

definition handle_datachannel_open :: "unit comp" where
  "handle_datachannel_open = dataChannel_send ''*** Channel is ready ***''"

definition sendMessage :: "unit comp" where
  "sendMessage st =
     (let message = dataChannelInput st;
          st1 = st\<lparr> dataChannelInput := [] \<rparr>;
          st2 = st1\<lparr> dataChannelOutput :=
                  dataChannelOutput st1 @ ''        ME: '' @ message @ ''\<newline>'' \<rparr>
      in dataChannel_send message st2)"

definition handle_datachannel_message :: "string \<Rightarrow> unit comp" where
  "handle_datachannel_message event_data st =
     (Inr (), st\<lparr> dataChannelOutput :=
                  dataChannelOutput st @ ''PEER: '' @ event_data @ ''\<newline>'' \<rparr>)"

subsection \<open>4. Signaling for peerConnection negotiation\<close>

definition handle_new_peer :: "platform \<Rightarrow> string \<Rightarrow> unit comp" where
  "handle_new_peer p room' =
     andThen (\<lambda>st. create_datachannel p (peerConnection st) st) (\<lambda>_.
     andThen (\<lambda>st. pc_method (peerConnection st) CreateOffer st) (\<lambda>c.
     andThen (await (createOffer p c)) (\<lambda>offer.
     andThen (\<lambda>st. pc_method (peerConnection st) (SetLocalDescription offer) st) (\<lambda>c.
     andThen (await_unit (setLocalDescription p c offer)) (\<lambda>_.
     (\<lambda>st. emit (socket st) ''invite'' (PSdp offer) st))))))"

definition handle_invite :: "platform \<Rightarrow> sdp \<Rightarrow> unit comp" where
  "handle_invite p offer =
     andThen (\<lambda>st. pc_method (peerConnection st) (SetRemoteDescription offer) st) (\<lambda>c.
     andThen (await_unit (setRemoteDescription p c offer)) (\<lambda>_.
     andThen (\<lambda>st. pc_method (peerConnection st) CreateAnswer st) (\<lambda>c.
     andThen (await (createAnswer p c)) (\<lambda>answer.
     andThen (\<lambda>st. pc_method (peerConnection st) (SetLocalDescription answer) st) (\<lambda>c.
     andThen (await_unit (setLocalDescription p c answer)) (\<lambda>_.
     (\<lambda>st. emit (socket st) ''ok'' (PSdp answer) st)))))))"

definition handle_ok :: "platform \<Rightarrow> sdp \<Rightarrow> unit comp" where
  "handle_ok p answer =
     andThen (\<lambda>st. pc_method (peerConnection st) (SetRemoteDescription answer) st) (\<lambda>c.
     await_unit (setRemoteDescription p c answer))"

subsection \<open>5. ICE negotiation and remote stream handling\<close>

text \<open>\<open>event.candidate\<close> is a candidate object or \<open>null\<close>; an object is truthy.\<close>

definition handle_local_icecandidate :: "candidate option \<Rightarrow> unit comp" where
  "handle_local_icecandidate event_candidate st =
     (case event_candidate of
        Some c \<Rightarrow> emit (socket st) ''ice_candidate'' (PCandidate c) st
      | None \<Rightarrow> (Inr (), st))"

text \<open>The promise of \<open>addIceCandidate\<close> is not awaited: its outcome never reaches the handler.\<close>

definition handle_remote_icecandidate :: "candidate \<Rightarrow> unit comp" where
  "handle_remote_icecandidate c =
     andThen (\<lambda>st. pc_method (peerConnection st) (AddIceCandidate c) st) (\<lambda>_. ret ())"

subsection \<open>6. Remote video stream\<close>

definition handle_remote_track :: "stream list \<Rightarrow> unit comp" where
  "handle_remote_track event_streams st =
     (Inr (), st\<lparr> remoteVideo := (case event_streams of [] \<Rightarrow> Undefined | s # _ \<Rightarrow> Obj s) \<rparr>)"

subsection \<open>8. End call\<close>

primrec stop_tracks :: "track list \<Rightarrow> state \<Rightarrow> state" where
  "stop_tracks [] st = st"
| "stop_tracks (t # ts) st =
     stop_tracks ts ((perform (TrackStop t) st)\<lparr> ended := insert t (ended st) \<rparr>)"

definition hangUp :: "unit comp" where
  "hangUp =
     andThen (\<lambda>st. emit (socket st) ''bye'' (PRoom (room st)) st) (\<lambda>_.
     andThen (\<lambda>st. deref (localVideo st) st) (\<lambda>ls.
     andThen (\<lambda>st. (Inr (), stop_tracks ls st)) (\<lambda>_.
     andThen (\<lambda>st. deref (remoteVideo st) st) (\<lambda>rs.
     andThen (\<lambda>st. (Inr (), stop_tracks rs st)) (\<lambda>_.
     andThen (\<lambda>st. (Inr (), st\<lparr> localVideo := Null \<rparr>)) (\<lambda>_.
     andThen (\<lambda>st. (Inr (), st\<lparr> remoteVideo := Null \<rparr>)) (\<lambda>_.
     andThen (\<lambda>st. pc_method (peerConnection st) Close st) (\<lambda>_.
     andThen (\<lambda>st. (Inr (), st\<lparr> peerConnection := Null \<rparr>)) (\<lambda>_.
     andThen (\<lambda>st. deref (dataChannel st) st) (\<lambda>ch.
     andThen (\<lambda>st. (Inr (), perform DcClose st)) (\<lambda>_.
     andThen (\<lambda>st. (Inr (), st\<lparr> dataChannel := Null \<rparr>)) (\<lambda>_.
     (\<lambda>st. (Inr (), st\<lparr> dataChannelOutput :=
                          dataChannelOutput st @ ''*** Channel is closed ***\<newline>'' \<rparr>))))))))))))))"

subsection \<open>The handlers as they are registered\<close>

datatype signal =
    Created | Joined | Full
  | New_peer string | Invite sdp | Ok sdp | Ice_candidate candidate | Bye

text \<open>What \<open>add_signaling_handlers\<close> attaches to each message of the socket.\<close>

fun add_signaling_handlers :: "platform \<Rightarrow> signal \<Rightarrow> unit comp" where
  "add_signaling_handlers p Created = ret ()"
| "add_signaling_handlers p Joined = ret ()"
| "add_signaling_handlers p Full = ret ()"
| "add_signaling_handlers p (New_peer r) = handle_new_peer p r"
| "add_signaling_handlers p (Invite offer) = handle_invite p offer"
| "add_signaling_handlers p (Ok answer) = handle_ok p answer"
| "add_signaling_handlers p (Ice_candidate c) = handle_remote_icecandidate c"
| "add_signaling_handlers p Bye = hangUp"

datatype pc_event =
  Icecandidate "candidate option" | Track "stream list" | Datachannel datachannel_event

text \<open>What \<open>add_peerconnection_handlers\<close> attaches to each event of the connection.\<close>

fun add_peerconnection_handlers :: "pc_event \<Rightarrow> unit comp" where
  "add_peerconnection_handlers (Icecandidate c) = handle_local_icecandidate c"
| "add_peerconnection_handlers (Track ss) = handle_remote_track ss"
| "add_peerconnection_handlers (Datachannel event) = handle_remote_datachannel event"

text \<open>\<open>window.onbeforeunload\<close>.\<close>

definition window_onbeforeunload :: "unit comp" where
  "window_onbeforeunload = hangUp"

subsection \<open>Events raised by the engine\<close>

text \<open>
  Modelled from the spec: the engine's data-channel-open event. The engine opens the
  channel held in \<open>dataChannel\<close> and then runs the \<open>onopen\<close> handler that
  \<open>create_datachannel\<close> attached to it.
\<close>

definition channel_opens :: "unit comp" where
  "channel_opens st =
     handle_datachannel_open
       (case dataChannel st of
          Obj ch \<Rightarrow> st\<lparr> dataChannel := Obj (ch\<lparr> readyState := Open \<rparr>) \<rparr>
        | _ \<Rightarrow> st)"

subsection \<open>A description handed to the engine\<close>

text \<open>The state after \<open>peerConnection.setRemoteDescription(d)\<close> has been invoked on \<open>c\<close>.\<close>

definition applied :: "sdp \<Rightarrow> pc \<Rightarrow> state \<Rightarrow> state" where
  "applied d c st = st\<lparr> peerConnection := Obj (c\<lparr> pc_log := pc_log c @ [SetRemoteDescription d] \<rparr>),
                        trace := trace st @ [PcCall (SetRemoteDescription d)] \<rparr>"

subsection \<open>The Caller path as the specification words it\<close>

text \<open>
  "create data channel on Negotiation Engine, create offer, apply as local description,
  send offer via Signaling Transport".
\<close>

definition caller_path_spec :: "sdp \<Rightarrow> effect list" where
  "caller_path_spec offer =
     [PcCall (CreateDataChannel ''data channel''), PcCall CreateOffer,
      PcCall (SetLocalDescription offer), Emit ''invite'' (PSdp offer)]"

subsection \<open>Sample platforms and the states of a sample call\<close>

text \<open>A browser with a camera whose engine accepts every operation; the user types \<open>X\<close>.\<close>

definition camera_platform :: platform where
  "camera_platform = \<lparr> getUserMedia = Inr [0, 1], getDisplayMedia = Inr [7],
     prompt = Some ''X'',
     addTrack = (\<lambda>c t s. None),
     createDataChannel = (\<lambda>c l. Inr \<lparr> dc_label = l, readyState = Connecting, dc_sent = [] \<rparr>),
     createOffer = (\<lambda>c. Inr ''offer''),
     createAnswer = (\<lambda>c. Inr ''answer''),
     setLocalDescription = (\<lambda>c d. None),
     setRemoteDescription = (\<lambda>c d. None) \<rparr>"

text \<open>The same browser with neither a camera nor a screen to share.\<close>

definition no_media_platform :: platform where
  "no_media_platform = camera_platform\<lparr> getUserMedia := Inl (Rejected ''NotFoundError''),
     getDisplayMedia := Inl (Rejected ''NotAllowedError'') \<rparr>"

text \<open>The same browser with an engine that rejects every remote description.\<close>

definition rejecting_platform :: platform where
  "rejecting_platform =
     camera_platform\<lparr> setRemoteDescription := (\<lambda>c d. Some (Rejected ''InvalidStateError'')) \<rparr>"

text \<open>After \<open>call\<close>: the room is joined, the peer connection exists.\<close>

definition joined_state :: state where
  "joined_state = \<lparr> peerConnection = Obj \<lparr> pc_log = [AddTrack 0 [0, 1], AddTrack 1 [0, 1]] \<rparr>,
     dataChannel = Undefined, room = Obj ''X'', socket = Obj Socket,
     localVideo = Obj [0, 1], remoteVideo = Null, dataChannelInput = [],
     dataChannelOutput = [], ended = {},
     trace = [GetUserMedia, Io, Prompt, Emit ''join'' (PRoom (Obj ''X'')),
        NewPeerConnection, PcCall (AddTrack 0 [0, 1]), PcCall (AddTrack 1 [0, 1])] \<rparr>"

text \<open>After \<open>new_peer\<close>: the Caller has sent its offer.\<close>

definition offer_sent_state :: state where
  "offer_sent_state = joined_state\<lparr>
     peerConnection := Obj \<lparr> pc_log = [AddTrack 0 [0, 1], AddTrack 1 [0, 1],
        CreateDataChannel ''data channel'', CreateOffer, SetLocalDescription ''offer''] \<rparr>,
     dataChannel := Obj \<lparr> dc_label = ''data channel'', readyState = Connecting, dc_sent = [] \<rparr>,
     trace := trace joined_state @
        [PcCall (CreateDataChannel ''data channel''), PcCall CreateOffer,
         PcCall (SetLocalDescription ''offer''), Emit ''invite'' (PSdp ''offer'')] \<rparr>"

text \<open>After \<open>ok\<close>, the remote track and the opening of the channel.\<close>

definition connected_state :: state where
  "connected_state = offer_sent_state\<lparr>
     peerConnection := Obj \<lparr> pc_log = [AddTrack 0 [0, 1], AddTrack 1 [0, 1],
        CreateDataChannel ''data channel'', CreateOffer, SetLocalDescription ''offer'',
        SetRemoteDescription ''answer''] \<rparr>,
     dataChannel := Obj \<lparr> dc_label = ''data channel'', readyState = Open,
        dc_sent = [''*** Channel is ready ***''] \<rparr>,
     remoteVideo := Obj [2, 3],
     trace := trace offer_sent_state @
        [PcCall (SetRemoteDescription ''answer''), DcSend ''*** Channel is ready ***''] \<rparr>"

text \<open>After \<open>call\<close> on the browser without media: a socket and a room, no peer connection.\<close>

definition no_handle_state :: state where
  "no_handle_state = \<lparr> peerConnection = Undefined, dataChannel = Undefined, room = Obj ''X'',
     socket = Obj Socket, localVideo = Undefined, remoteVideo = Null,
     dataChannelInput = [], dataChannelOutput = [], ended = {},
     trace = [GetUserMedia, GetDisplayMedia, Io, Prompt,
        Emit ''join'' (PRoom (Obj ''X'')), NewPeerConnection] \<rparr>"

section \<open>Properties\<close>

subsection \<open>Unfolding and the sample call\<close>

lemmas comp_defs = andThen_def ret_def await_def await_unit_def deref_def perform_def emit_def
  pc_method_def

lemmas sample_defs = camera_platform_def no_media_platform_def rejecting_platform_def
  joined_state_def offer_sent_state_def connected_state_def no_handle_state_def init_state_def

lemma stop_tracks_eq:
  "stop_tracks ts st = st\<lparr> ended := ended st \<union> set ts, trace := trace st @ map TrackStop ts \<rparr>"
  by (induction ts arbitrary: st) (simp_all add: perform_def)

lemmas hangUp_defs = hangUp_def comp_defs stop_tracks_eq

lemmas call_defs = call_def enable_camera_def create_signaling_connection_def call_room_def
  create_peerconnection_def comp_defs

text \<open>The sample states are the states the script reaches on the sample platforms.\<close>

lemma joined_state_reached: "call camera_platform init_state = (Inr (), joined_state)"
  by (simp add: call_defs sample_defs)

lemma offer_sent_state_reached:
  "add_signaling_handlers camera_platform (New_peer ''X'') joined_state = (Inr (), offer_sent_state)"
  by (simp add: handle_new_peer_def create_datachannel_def comp_defs sample_defs)

lemma connected_state_reached:
  "andThen (add_signaling_handlers camera_platform (Ok ''answer'')) (\<lambda>_.
   andThen (add_peerconnection_handlers (Track [[2, 3]])) (\<lambda>_. channel_opens)) offer_sent_state
   = (Inr (), connected_state)"
  by (simp add: handle_ok_def handle_remote_track_def channel_opens_def
      handle_datachannel_open_def dataChannel_send_def channel_send_def comp_defs sample_defs)

lemma no_handle_state_reached: "call no_media_platform init_state = (Inl TypeError, no_handle_state)"
  by (simp add: call_defs sample_defs)

text \<open>Adopting the peer's channel never succeeds: the variable is left \<open>undefined\<close>.\<close>

lemma handle_remote_datachannel_throws:
  "add_peerconnection_handlers (Datachannel event) st = (Inl TypeError, st\<lparr> dataChannel := Undefined \<rparr>)"
  by (simp add: handle_remote_datachannel_def event_dataChannel_def)

subsection \<open>C1: teardown twice\<close>

text \<open>
  C1 as stated fails at the connected sample state: the first \<open>hangUp\<close> completes, the
  second one is an error (a \<open>TypeError\<close> on the \<open>srcObject\<close> that the first one set to
  \<open>null\<close>) and is not a no-op (it has emitted another \<open>bye\<close>).
\<close>

theorem hangUp_second_call_counterexample:
  "fst (hangUp connected_state) = Inr () \<and>
   fst (hangUp (snd (hangUp connected_state))) = Inl TypeError \<and>
   snd (hangUp (snd (hangUp connected_state))) \<noteq> snd (hangUp connected_state)"
  by (simp add: hangUp_defs sample_defs)

text \<open>
  C1 as amended: for every state, a second \<open>hangUp\<close> right after a first one always
  raises a \<open>TypeError\<close> and leaves the tracks, both video sinks, the negotiation handle,
  the data-channel handle and the transcript exactly as the first one left them (the
  two states differ in the trace only); it is not a no-op, since with a socket it first
  emits another \<open>bye\<close> carrying the room, and that is all it does when the first
  \<open>hangUp\<close> had completed.
\<close>

theorem hangUp_twice:
  "case hangUp st of (r1, st1) \<Rightarrow> (case hangUp st1 of (r2, st2) \<Rightarrow>
     r2 = Inl TypeError \<and> st2 = st1\<lparr> trace := trace st2 \<rparr> \<and>
     (\<forall>sk. socket st = Obj sk \<longrightarrow>
        (\<exists>rest. trace st2 = trace st1 @ Emit ''bye'' (PRoom (room st)) # rest)) \<and>
     (r1 = Inr () \<longrightarrow> trace st2 = trace st1 @ [Emit ''bye'' (PRoom (room st))]))"
  by (cases "socket st"; cases "localVideo st"; cases "remoteVideo st";
      cases "peerConnection st"; cases "dataChannel st")
     (simp_all add: hangUp_defs)

theorem hangUp_twice_witness:
  "socket connected_state = Obj Socket \<and> fst (hangUp connected_state) = Inr () \<and>
   fst (hangUp (snd (hangUp connected_state))) = Inl TypeError \<and>
   trace (snd (hangUp (snd (hangUp connected_state)))) =
     trace (snd (hangUp connected_state)) @ [Emit ''bye'' (PRoom (Obj ''X''))]"
  using hangUp_twice [of connected_state]
  by (simp add: hangUp_defs sample_defs)

subsection \<open>C2: remote candidates\<close>

text \<open>
  C2 as stated fails at the sample state without a negotiation handle: the candidate that
  arrives there raises a \<open>TypeError\<close> and leaves the state as it was (nothing is queued),
  and once a later \<open>call\<close> has created the handle the candidate has not been applied to it.
\<close>

theorem candidate_before_handle_counterexample:
  "add_signaling_handlers camera_platform (Ice_candidate ''cand'') no_handle_state
     = (Inl TypeError, no_handle_state) \<and>
   peerConnection (snd (call camera_platform no_handle_state))
     = Obj \<lparr> pc_log = [AddTrack 0 [0, 1], AddTrack 1 [0, 1]] \<rparr> \<and>
   PcCall (AddIceCandidate ''cand'') \<notin> set (trace (snd (call camera_platform no_handle_state)))"
  by (simp add: handle_remote_icecandidate_def call_defs sample_defs)

text \<open>
  C2 as amended: a remote candidate received while the negotiation handle exists is passed
  to \<open>addIceCandidate\<close> at once and exactly once; a candidate received while there is no
  handle (\<open>undefined\<close> or \<open>null\<close>) is not queued: the handler raises a \<open>TypeError\<close> and
  changes nothing, so the candidate is lost.
\<close>

theorem remote_icecandidate_applied_or_dropped:
  "case peerConnection st of
     Obj c \<Rightarrow>
       handle_remote_icecandidate cand st =
         (Inr (), st\<lparr> peerConnection := Obj (c\<lparr> pc_log := pc_log c @ [AddIceCandidate cand] \<rparr>),
                       trace := trace st @ [PcCall (AddIceCandidate cand)] \<rparr>)
   | _ \<Rightarrow> handle_remote_icecandidate cand st = (Inl TypeError, st)"
  by (simp add: handle_remote_icecandidate_def comp_defs split: nullable.splits)

theorem remote_icecandidate_applied_or_dropped_witness:
  "handle_remote_icecandidate ''cand'' joined_state =
     (Inr (), joined_state\<lparr>
        peerConnection := Obj \<lparr> pc_log = [AddTrack 0 [0, 1], AddTrack 1 [0, 1], AddIceCandidate ''cand''] \<rparr>,
        trace := trace joined_state @ [PcCall (AddIceCandidate ''cand'')] \<rparr>)"
  using remote_icecandidate_applied_or_dropped [where st = joined_state and cand = "''cand''"]
  by (simp add: sample_defs)

subsection \<open>C3: descriptions that are not expected\<close>

text \<open>
  C3 as stated fails at the sample state in which the Caller has sent its offer: a
  second offer received there is handed to the engine, answered, and the answer is sent;
  and at the sample state in which no offer has been sent: an answer received there is
  handed to the engine too.
\<close>

theorem unexpected_description_applied_counterexample:
  "fst (add_signaling_handlers camera_platform (Invite ''offer2'') offer_sent_state) = Inr () \<and>
   trace (snd (add_signaling_handlers camera_platform (Invite ''offer2'') offer_sent_state)) =
     trace offer_sent_state @
       [PcCall (SetRemoteDescription ''offer2''), PcCall CreateAnswer,
        PcCall (SetLocalDescription ''answer''), Emit ''ok'' (PSdp ''answer'')] \<and>
   fst (add_signaling_handlers camera_platform (Ok ''answer'') joined_state) = Inr () \<and>
   peerConnection (snd (add_signaling_handlers camera_platform (Ok ''answer'') joined_state)) =
     Obj \<lparr> pc_log = [AddTrack 0 [0, 1], AddTrack 1 [0, 1], SetRemoteDescription ''answer''] \<rparr>"
  by (simp add: handle_invite_def handle_ok_def comp_defs sample_defs)

text \<open>
  C3 as amended: the script keeps no negotiation state. Whatever was exchanged before,
  an offer or an answer received while the negotiation handle exists is handed to the
  engine's \<open>setRemoteDescription\<close> as the first thing its handler does; only the engine
  can refuse it. When the engine refuses an offer, \<open>handle_invite\<close> stops there with
  the engine's error: no answer is created or sent and nothing but the record of that
  call changes. \<open>handle_ok\<close> does nothing else than that call.
\<close>

theorem descriptions_always_applied:
  assumes "peerConnection st = Obj c"
  shows "(\<exists>rest. trace (snd (handle_invite p offer st)) =
                   trace st @ PcCall (SetRemoteDescription offer) # rest) \<and>
         (\<forall>e. setRemoteDescription p c offer = Some e \<longrightarrow>
              handle_invite p offer st = (Inl e, applied offer c st)) \<and>
         handle_ok p answer st =
           ((case setRemoteDescription p c answer of Some e \<Rightarrow> Inl e | None \<Rightarrow> Inr ()),
            applied answer c st)"
  using assms
  by (simp add: handle_invite_def handle_ok_def comp_defs applied_def
      split: option.splits sum.splits nullable.splits)

theorem descriptions_always_applied_witness:
  "peerConnection offer_sent_state = Obj \<lparr> pc_log = [AddTrack 0 [0, 1], AddTrack 1 [0, 1],
        CreateDataChannel ''data channel'', CreateOffer, SetLocalDescription ''offer''] \<rparr> \<and>
   setRemoteDescription rejecting_platform \<lparr> pc_log = [AddTrack 0 [0, 1], AddTrack 1 [0, 1],
        CreateDataChannel ''data channel'', CreateOffer, SetLocalDescription ''offer''] \<rparr> ''offer2'' =
     Some (Rejected ''InvalidStateError'') \<and>
   handle_invite rejecting_platform ''offer2'' offer_sent_state =
     (Inl (Rejected ''InvalidStateError''),
      applied ''offer2'' \<lparr> pc_log = [AddTrack 0 [0, 1], AddTrack 1 [0, 1],
        CreateDataChannel ''data channel'', CreateOffer, SetLocalDescription ''offer''] \<rparr> offer_sent_state)"
  using descriptions_always_applied [where st = offer_sent_state and p = rejecting_platform
      and offer = "''offer2''" and c = "\<lparr> pc_log = [AddTrack 0 [0, 1], AddTrack 1 [0, 1],
        CreateDataChannel ''data channel'', CreateOffer, SetLocalDescription ''offer''] \<rparr>"]
  by (simp add: sample_defs)

subsection \<open>C4: sending on the data channel\<close>

lemmas send_defs = sendMessage_def dataChannel_send_def channel_send_def perform_def

text \<open>
  C4 as stated fails at the joined sample state, where no channel has been created yet:
  sending \<open>hello\<close> fails with a \<open>TypeError\<close>, not with \<open>ChannelNotOpen\<close>; and so
  it does after \<open>hangUp\<close> has closed the channel of the connected sample state.
\<close>

theorem send_before_channel_counterexample:
  "fst (sendMessage (joined_state\<lparr> dataChannelInput := ''hello'' \<rparr>)) = Inl TypeError \<and>
   fst (sendMessage (joined_state\<lparr> dataChannelInput := ''hello'' \<rparr>)) \<noteq> Inl ChannelNotOpen \<and>
   fst (sendMessage ((snd (hangUp connected_state))\<lparr> dataChannelInput := ''hello'' \<rparr>)) = Inl TypeError"
  by (simp add: send_defs hangUp_defs sample_defs)

text \<open>
  C4 as amended: \<open>sendMessage\<close> fails whenever the channel is not open: with the
  engine's \<open>ChannelNotOpen\<close> when a channel handle exists and is not open, and with a
  \<open>TypeError\<close> when there is no handle (before the channel is created, and after
  \<open>hangUp\<close>). On an open channel it succeeds and the payload is accepted by the
  channel's send primitive.
\<close>

theorem sendMessage_outcome:
  "fst (sendMessage st) =
     (case dataChannel st of
        Obj ch \<Rightarrow> if readyState ch = Open then Inr () else Inl ChannelNotOpen
      | _ \<Rightarrow> Inl TypeError) \<and>
   (\<forall>ch. dataChannel st = Obj ch \<and> readyState ch = Open \<longrightarrow>
      dataChannel (snd (sendMessage st)) = Obj (ch\<lparr> dc_sent := dc_sent ch @ [dataChannelInput st] \<rparr>))"
  by (simp add: send_defs Let_def split: nullable.splits)

theorem sendMessage_outcome_witness:
  "dataChannel (connected_state\<lparr> dataChannelInput := ''hello'' \<rparr>) =
     Obj \<lparr> dc_label = ''data channel'', readyState = Open, dc_sent = [''*** Channel is ready ***''] \<rparr> \<and>
   fst (sendMessage (connected_state\<lparr> dataChannelInput := ''hello'' \<rparr>)) = Inr () \<and>
   dataChannel (snd (sendMessage (connected_state\<lparr> dataChannelInput := ''hello'' \<rparr>))) =
     Obj \<lparr> dc_label = ''data channel'', readyState = Open,
           dc_sent = [''*** Channel is ready ***'', ''hello''] \<rparr>"
  using sendMessage_outcome [where st = "connected_state\<lparr> dataChannelInput := ''hello'' \<rparr>"]
  by (simp add: sample_defs)

subsection \<open>C5: media acquisition\<close>

text \<open>
  C5 as stated fails on the sample platform without media: \<open>enable_camera\<close> does not
  fail, it returns \<open>undefined\<close>; \<open>call\<close> then opens the socket, prompts and emits
  \<open>join\<close>, and only then fails, with a \<open>TypeError\<close>.
\<close>

theorem no_media_counterexample:
  "fst (enable_camera no_media_platform init_state) = Inr Undefined \<and>
   fst (call no_media_platform init_state) = Inl TypeError \<and>
   socket (snd (call no_media_platform init_state)) = Obj Socket \<and>
   trace (snd (call no_media_platform init_state)) =
     [GetUserMedia, GetDisplayMedia, Io, Prompt, Emit ''join'' (PRoom (Obj ''X'')), NewPeerConnection]"
  by (simp add: call_defs sample_defs)

text \<open>
  C5 as amended: \<open>enable_camera\<close> attempts the camera first and the screen share only
  after the camera attempt raised an error. It never fails: when neither can be obtained
  it returns \<open>undefined\<close>. \<open>call\<close> is not aborted at that point: it opens the
  signalling connection, prompts for the room and emits the join request (unless the
  token is the empty string), and then fails with a \<open>TypeError\<close> on the missing
  stream while creating the peer connection; \<open>peerConnection\<close> is left as it was.
\<close>

theorem media_acquisition_order:
  "fst (enable_camera p st) =
     Inr (case getUserMedia p of
            Inr s \<Rightarrow> Obj s
          | Inl e \<Rightarrow> (case getDisplayMedia p of Inr s \<Rightarrow> Obj s | Inl e' \<Rightarrow> Undefined)) \<and>
   trace (snd (enable_camera p st)) =
     trace st @ (case getUserMedia p of
                   Inr s \<Rightarrow> [GetUserMedia]
                 | Inl e \<Rightarrow> [GetUserMedia, GetDisplayMedia]) \<and>
   (\<forall>e e'. getUserMedia p = Inl e \<and> getDisplayMedia p = Inl e' \<longrightarrow>
      fst (call p st) = Inl TypeError \<and>
      peerConnection (snd (call p st)) = peerConnection st \<and>
      socket (snd (call p st)) = Obj Socket \<and>
      trace (snd (call p st)) =
        trace st @ [GetUserMedia, GetDisplayMedia, Io, Prompt] @
        (if prompt p = Some [] then []
         else [Emit ''join'' (PRoom (case prompt p of None \<Rightarrow> Null | Some r \<Rightarrow> Obj r))]) @
        [NewPeerConnection])"
  by (simp add: call_defs Let_def split: sum.splits option.splits)

theorem media_acquisition_order_witness:
  "getUserMedia no_media_platform = Inl (Rejected ''NotFoundError'') \<and>
   getDisplayMedia no_media_platform = Inl (Rejected ''NotAllowedError'') \<and>
   fst (call no_media_platform init_state) = Inl TypeError \<and>
   trace (snd (enable_camera no_media_platform init_state)) = [GetUserMedia, GetDisplayMedia]"
  using media_acquisition_order [where p = no_media_platform and st = init_state]
  by (simp add: sample_defs)

subsection \<open>C6: the Caller path\<close>

lemmas new_peer_defs = handle_new_peer_def create_datachannel_def comp_defs

lemma handle_new_peer_prefix:
  "\<exists>offer ys. trace (snd (handle_new_peer p r st)) = trace st @ ys \<and>
      prefix ys (caller_path_spec offer) \<and>
      (fst (handle_new_peer p r st) = Inr () \<longrightarrow> ys = caller_path_spec offer)"
proof (cases "peerConnection st")
  case (Obj c)
  let ?c1 = "c\<lparr> pc_log := pc_log c @ [CreateDataChannel ''data channel''] \<rparr>"
  let ?c2 = "c\<lparr> pc_log := pc_log c @ [CreateDataChannel ''data channel'', CreateOffer] \<rparr>"
  show ?thesis
  proof (cases "createDataChannel p c ''data channel''")
    case (Inl e)
    with Obj have "trace (snd (handle_new_peer p r st)) =
        trace st @ [PcCall (CreateDataChannel ''data channel'')]"
      and "fst (handle_new_peer p r st) = Inl e"
      by (simp_all add: new_peer_defs)
    then show ?thesis
      by (intro exI [of _ "[]"] exI [of _ "[PcCall (CreateDataChannel ''data channel'')]"])
         (simp add: caller_path_spec_def)
  next
    case ch: (Inr ch)
    show ?thesis
    proof (cases "createOffer p ?c1")
      case (Inl e)
      with Obj ch have "trace (snd (handle_new_peer p r st)) =
          trace st @ [PcCall (CreateDataChannel ''data channel''), PcCall CreateOffer]"
        and "fst (handle_new_peer p r st) = Inl e"
        by (simp_all add: new_peer_defs)
      then show ?thesis
        by (intro exI [of _ "[]"]
              exI [of _ "[PcCall (CreateDataChannel ''data channel''), PcCall CreateOffer]"])
           (simp add: caller_path_spec_def)
    next
      case offer: (Inr offer)
      show ?thesis
      proof (cases "setLocalDescription p ?c2 offer")
        case (Some e)
        with Obj ch offer have "trace (snd (handle_new_peer p r st)) =
            trace st @ [PcCall (CreateDataChannel ''data channel''), PcCall CreateOffer,
                        PcCall (SetLocalDescription offer)]"
          and "fst (handle_new_peer p r st) = Inl e"
          by (simp_all add: new_peer_defs)
        then show ?thesis
          by (intro exI [of _ offer]
                exI [of _ "[PcCall (CreateDataChannel ''data channel''), PcCall CreateOffer,
                            PcCall (SetLocalDescription offer)]"])
             (simp add: caller_path_spec_def)
      next
        case None
        show ?thesis
        proof (cases "socket st")
          case (Obj sk)
          with \<open>peerConnection st = Obj c\<close> ch offer None
          have "trace (snd (handle_new_peer p r st)) = trace st @ caller_path_spec offer"
            by (simp add: new_peer_defs caller_path_spec_def)
          then show ?thesis
            by (intro exI [of _ offer] exI [of _ "caller_path_spec offer"]) simp
        next
          case Undefined
          with \<open>peerConnection st = Obj c\<close> ch offer None
          have "trace (snd (handle_new_peer p r st)) =
              trace st @ [PcCall (CreateDataChannel ''data channel''), PcCall CreateOffer,
                          PcCall (SetLocalDescription offer)]"
            and "fst (handle_new_peer p r st) = Inl TypeError"
            by (simp_all add: new_peer_defs)
          then show ?thesis
            by (intro exI [of _ offer]
                  exI [of _ "[PcCall (CreateDataChannel ''data channel''), PcCall CreateOffer,
                              PcCall (SetLocalDescription offer)]"])
               (simp add: caller_path_spec_def)
        next
          case Null
          with \<open>peerConnection st = Obj c\<close> ch offer None
          have "trace (snd (handle_new_peer p r st)) =
              trace st @ [PcCall (CreateDataChannel ''data channel''), PcCall CreateOffer,
                          PcCall (SetLocalDescription offer)]"
            and "fst (handle_new_peer p r st) = Inl TypeError"
            by (simp_all add: new_peer_defs)
          then show ?thesis
            by (intro exI [of _ offer]
                  exI [of _ "[PcCall (CreateDataChannel ''data channel''), PcCall CreateOffer,
                              PcCall (SetLocalDescription offer)]"])
               (simp add: caller_path_spec_def)
        qed
      qed
    qed
  qed
next
  case Undefined
  then have "trace (snd (handle_new_peer p r st)) = trace st"
    and "fst (handle_new_peer p r st) = Inl TypeError"
    by (simp_all add: new_peer_defs)
  then show ?thesis
    by (intro exI [of _ "[]"]) simp
next
  case Null
  then have "trace (snd (handle_new_peer p r st)) = trace st"
    and "fst (handle_new_peer p r st) = Inl TypeError"
    by (simp_all add: new_peer_defs)
  then show ?thesis
    by (intro exI [of _ "[]"]) simp
qed

lemma handle_new_peer_complete:
  assumes "peerConnection st = Obj c" and "socket st = Obj sk"
    and "createDataChannel p c ''data channel'' = Inr ch"
    and "createOffer p (c\<lparr> pc_log := pc_log c @ [CreateDataChannel ''data channel''] \<rparr>) = Inr offer"
    and "setLocalDescription p
           (c\<lparr> pc_log := pc_log c @ [CreateDataChannel ''data channel'', CreateOffer] \<rparr>) offer = None"
  shows "fst (handle_new_peer p r st) = Inr ()"
    and "trace (snd (handle_new_peer p r st)) = trace st @ caller_path_spec offer"
  using assms by (simp_all add: new_peer_defs caller_path_spec_def)

text \<open>
  C6: on every \<open>new_peer\<close> message the handler's requests are, in this order: create
  the data channel on the engine, create the offer, apply it as local description, send
  it as \<open>invite\<close>. Whatever the engine answers, the requests made are an initial part
  of that sequence, and all of it when the handler completes; it does complete when the
  handle and the socket exist and the engine accepts the three operations. (The handler
  is run without other handlers running at its suspension points.)
\<close>

theorem caller_path_order:
  "(\<exists>offer ys. trace (snd (add_signaling_handlers p (New_peer r) st)) = trace st @ ys \<and>
      prefix ys (caller_path_spec offer) \<and>
      (fst (add_signaling_handlers p (New_peer r) st) = Inr () \<longrightarrow> ys = caller_path_spec offer)) \<and>
   (\<forall>c sk ch offer.
      peerConnection st = Obj c \<and> socket st = Obj sk \<and>
      createDataChannel p c ''data channel'' = Inr ch \<and>
      createOffer p (c\<lparr> pc_log := pc_log c @ [CreateDataChannel ''data channel''] \<rparr>) = Inr offer \<and>
      setLocalDescription p
        (c\<lparr> pc_log := pc_log c @ [CreateDataChannel ''data channel'', CreateOffer] \<rparr>) offer = None
      \<longrightarrow> fst (add_signaling_handlers p (New_peer r) st) = Inr () \<and>
          trace (snd (add_signaling_handlers p (New_peer r) st)) = trace st @ caller_path_spec offer)"
  using handle_new_peer_prefix [of p r st] handle_new_peer_complete [of st _ _ p _ _ r]
  by simp

theorem caller_path_order_witness:
  "peerConnection joined_state = Obj \<lparr> pc_log = [AddTrack 0 [0, 1], AddTrack 1 [0, 1]] \<rparr> \<and>
   socket joined_state = Obj Socket \<and>
   fst (add_signaling_handlers camera_platform (New_peer ''X'') joined_state) = Inr () \<and>
   trace (snd (add_signaling_handlers camera_platform (New_peer ''X'') joined_state)) =
     trace joined_state @
       [PcCall (CreateDataChannel ''data channel''), PcCall CreateOffer,
        PcCall (SetLocalDescription ''offer''), Emit ''invite'' (PSdp ''offer'')]"
proof -
  have "peerConnection joined_state = Obj \<lparr> pc_log = [AddTrack 0 [0, 1], AddTrack 1 [0, 1]] \<rparr> \<and>
      socket joined_state = Obj Socket \<and>
      createDataChannel camera_platform \<lparr> pc_log = [AddTrack 0 [0, 1], AddTrack 1 [0, 1]] \<rparr>
        ''data channel'' = Inr \<lparr> dc_label = ''data channel'', readyState = Connecting, dc_sent = [] \<rparr> \<and>
      createOffer camera_platform (\<lparr> pc_log = [AddTrack 0 [0, 1], AddTrack 1 [0, 1]] \<rparr>
        \<lparr> pc_log := pc_log \<lparr> pc_log = [AddTrack 0 [0, 1], AddTrack 1 [0, 1]] \<rparr> @
             [CreateDataChannel ''data channel''] \<rparr>) = Inr ''offer'' \<and>
      setLocalDescription camera_platform (\<lparr> pc_log = [AddTrack 0 [0, 1], AddTrack 1 [0, 1]] \<rparr>
        \<lparr> pc_log := pc_log \<lparr> pc_log = [AddTrack 0 [0, 1], AddTrack 1 [0, 1]] \<rparr> @
             [CreateDataChannel ''data channel'', CreateOffer] \<rparr>) ''offer'' = None"
    by (simp add: sample_defs)
  with caller_path_order [of camera_platform "''X''" joined_state]
  show ?thesis by (simp add: caller_path_spec_def)
qed

subsection \<open>C7: local candidates\<close>

text \<open>
  C7: in every state with a socket, whatever the stage of the negotiation, a local
  candidate event with a candidate emits one \<open>ice_candidate\<close> message carrying it and
  changes nothing else; a local candidate event whose candidate is \<open>null\<close> emits
  nothing.
\<close>

theorem local_icecandidate_forwarding:
  assumes "socket st = Obj sk"
  shows "add_peerconnection_handlers (Icecandidate (Some c)) st =
           (Inr (), st\<lparr> trace := trace st @ [Emit ''ice_candidate'' (PCandidate c)] \<rparr>) \<and>
         add_peerconnection_handlers (Icecandidate None) st = (Inr (), st)"
  using assms by (simp add: handle_local_icecandidate_def emit_def perform_def)

theorem local_icecandidate_forwarding_witness:
  "socket joined_state = Obj Socket \<and>
   add_peerconnection_handlers (Icecandidate (Some ''cand'')) joined_state =
     (Inr (), joined_state\<lparr> trace := trace joined_state @ [Emit ''ice_candidate'' (PCandidate ''cand'')] \<rparr>) \<and>
   add_peerconnection_handlers (Icecandidate None) joined_state = (Inr (), joined_state)"
proof -
  have s: "socket joined_state = Obj Socket" by (simp add: sample_defs)
  from s local_icecandidate_forwarding [OF s, of "''cand''"] show ?thesis by simp
qed

subsection \<open>C8: the room token\<close>

lemma addTracks_accepted:
  assumes "\<And>c t. addTrack p c t ls = None"
  shows "addTracks p ls ts c st =
     (Inr (c\<lparr> pc_log := pc_log c @ map (\<lambda>t. AddTrack t ls) ts \<rparr>),
      st\<lparr> trace := trace st @ map (\<lambda>t. PcCall (AddTrack t ls)) ts \<rparr>)"
  using assms by (induction ts arbitrary: c st) (simp_all add: perform_def)

text \<open>
  C8 as stated fails on the sample platform with the empty token: \<open>call_room\<close> and
  \<open>call\<close> complete without an error, and \<open>call\<close> has created the peer connection.
\<close>

theorem empty_room_counterexample:
  "fst (call_room (camera_platform\<lparr> prompt := Some [] \<rparr>) (Obj Socket) init_state) = Inr () \<and>
   fst (call (camera_platform\<lparr> prompt := Some [] \<rparr>) init_state) = Inr () \<and>
   peerConnection (snd (call (camera_platform\<lparr> prompt := Some [] \<rparr>) init_state)) =
     Obj \<lparr> pc_log = [AddTrack 0 [0, 1], AddTrack 1 [0, 1]] \<rparr>"
  by (simp add: call_defs sample_defs)

text \<open>
  C8 as amended: with a socket, \<open>call_room\<close> never fails on a token typed by the user:
  with the empty token it sends no join request, with every non-empty token it emits
  one \<open>join\<close> carrying that token. The empty token does not abort \<open>call\<close>: when
  \<open>enable_camera\<close> obtains a stream (from the camera or from the screen share) and
  the engine accepts each of its tracks, \<open>call\<close> with the empty token completes, having
  created the socket and the peer connection and emitted nothing.
\<close>

theorem call_room_join:
  "(\<forall>t. prompt p = Some t \<longrightarrow>
      call_room p (Obj sk) st =
        (Inr (), st\<lparr> room := Obj t,
                      trace := trace st @ Prompt #
                        (if t = [] then [] else [Emit ''join'' (PRoom (Obj t))]) \<rparr>)) \<and>
   (\<forall>s. prompt p = Some [] \<and> fst (enable_camera p st) = Inr (Obj s) \<and>
        (\<forall>c t. addTrack p c t s = None) \<longrightarrow>
      call p st =
        (Inr (), (snd (enable_camera p st))\<lparr>
                    peerConnection := Obj \<lparr> pc_log = map (\<lambda>t. AddTrack t s) s \<rparr>,
                    room := Obj [], socket := Obj Socket,
                    trace := trace (snd (enable_camera p st)) @ [Io, Prompt, NewPeerConnection] @
                             map (\<lambda>t. PcCall (AddTrack t s)) s \<rparr>) \<and>
      (\<forall>e d. Emit e d \<in> set (trace (snd (call p st))) \<longrightarrow> Emit e d \<in> set (trace st)))"
proof (intro conjI allI impI)
  fix t
  assume "prompt p = Some t"
  then show "call_room p (Obj sk) st =
        (Inr (), st\<lparr> room := Obj t,
                      trace := trace st @ Prompt #
                        (if t = [] then [] else [Emit ''join'' (PRoom (Obj t))]) \<rparr>)"
    by (simp add: call_room_def emit_def perform_def)
next
  fix s
  assume h: "prompt p = Some [] \<and> fst (enable_camera p st) = Inr (Obj s) \<and>
             (\<forall>c t. addTrack p c t s = None)"
  then have "\<And>c t. addTrack p c t s = None" by simp
  note acc = addTracks_accepted [of p s, OF this]
  obtain st1 where cam: "enable_camera p st = (Inr (Obj s), st1)"
    using h by (cases "enable_camera p st") simp
  from h cam have run: "call p st =
        (Inr (), st1\<lparr> peerConnection := Obj \<lparr> pc_log = map (\<lambda>t. AddTrack t s) s \<rparr>,
                       room := Obj [], socket := Obj Socket,
                       trace := trace st1 @ [Io, Prompt, NewPeerConnection] @
                                map (\<lambda>t. PcCall (AddTrack t s)) s \<rparr>)"
    by (simp add: call_def create_signaling_connection_def call_room_def
        create_peerconnection_def comp_defs acc)
  with cam show "call p st =
        (Inr (), (snd (enable_camera p st))\<lparr>
                    peerConnection := Obj \<lparr> pc_log = map (\<lambda>t. AddTrack t s) s \<rparr>,
                    room := Obj [], socket := Obj Socket,
                    trace := trace (snd (enable_camera p st)) @ [Io, Prompt, NewPeerConnection] @
                             map (\<lambda>t. PcCall (AddTrack t s)) s \<rparr>)"
    by simp
  have cam_trace: "trace st1 = trace st @ [GetUserMedia] \<or>
                   trace st1 = trace st @ [GetUserMedia, GetDisplayMedia]"
    using cam by (auto simp add: enable_camera_def perform_def Let_def split: sum.splits)
  fix e d
  assume "Emit e d \<in> set (trace (snd (call p st)))"
  with run cam_trace show "Emit e d \<in> set (trace st)"
    by auto
qed

theorem call_room_join_witness:
  "prompt (camera_platform\<lparr> prompt := Some [] \<rparr>) = Some [] \<and>
   fst (enable_camera (camera_platform\<lparr> prompt := Some [] \<rparr>) init_state) = Inr (Obj [0, 1]) \<and>
   (\<forall>c t. addTrack (camera_platform\<lparr> prompt := Some [] \<rparr>) c t [0, 1] = None) \<and>
   fst (call (camera_platform\<lparr> prompt := Some [] \<rparr>) init_state) = Inr () \<and>
   trace (snd (call (camera_platform\<lparr> prompt := Some [] \<rparr>) init_state)) =
     [GetUserMedia, Io, Prompt, NewPeerConnection, PcCall (AddTrack 0 [0, 1]), PcCall (AddTrack 1 [0, 1])] \<and>
   prompt camera_platform = Some ''X'' \<and>
   call_room camera_platform (Obj Socket) init_state =
     (Inr (), init_state\<lparr> room := Obj ''X'', trace := [Prompt, Emit ''join'' (PRoom (Obj ''X''))] \<rparr>)"
  using call_room_join [of camera_platform Socket init_state]
    call_room_join [of "camera_platform\<lparr> prompt := Some [] \<rparr>" Socket init_state]
  by (simp add: sample_defs enable_camera_def perform_def)

subsection \<open>C9: a bye from the peer\<close>

text \<open>
  C9: the handler of a received \<open>bye\<close> is \<open>hangUp\<close>, whose first request, before any
  track is stopped and before the connection and the channel are closed, is to emit
  \<open>bye\<close> carrying the room.
\<close>

theorem bye_reemitted:
  assumes "socket st = Obj sk"
  shows "\<exists>rest. trace (snd (add_signaling_handlers p Bye st)) =
                  trace st @ Emit ''bye'' (PRoom (room st)) # rest"
  using assms
  by (cases "localVideo st"; cases "remoteVideo st"; cases "peerConnection st"; cases "dataChannel st")
     (simp_all add: hangUp_defs)

theorem bye_reemitted_witness:
  "socket connected_state = Obj Socket \<and>
   trace (snd (add_signaling_handlers camera_platform Bye connected_state)) =
     trace connected_state @ Emit ''bye'' (PRoom (Obj ''X'')) #
       [TrackStop 0, TrackStop 1, TrackStop 2, TrackStop 3, PcCall Close, DcClose]"
proof -
  have s: "socket connected_state = Obj Socket" by (simp add: sample_defs)
  from s bye_reemitted [OF s, of camera_platform] show ?thesis
    by (simp add: hangUp_defs sample_defs)
qed

subsection \<open>C10: sendMessage is not atomic\<close>

text \<open>
  C10: whatever the outcome of \<open>sendMessage\<close>, the input field has been cleared and
  the message appended to the local transcript after \<open>ME: \<close>; the send primitive is
  invoked in the state that already has these two changes.
\<close>

theorem sendMessage_not_atomic:
  assumes "sendMessage st = (r, st')"
  shows "dataChannelInput st' = [] \<and>
         dataChannelOutput st' = dataChannelOutput st @ ''        ME: '' @ dataChannelInput st @ ''\<newline>'' \<and>
         (r, st') = dataChannel_send (dataChannelInput st)
            (st\<lparr> dataChannelInput := [],
                 dataChannelOutput := dataChannelOutput st @ ''        ME: '' @ dataChannelInput st @ ''\<newline>'' \<rparr>)"
  using assms
  by (auto simp add: sendMessage_def dataChannel_send_def channel_send_def perform_def Let_def
      split: nullable.splits if_splits)

theorem sendMessage_not_atomic_witness:
  "sendMessage (joined_state\<lparr> dataChannelInput := ''hello'' \<rparr>) =
     (Inl TypeError, joined_state\<lparr> dataChannelInput := [],
         dataChannelOutput := ''        ME: hello\<newline>'' \<rparr>) \<and>
   dataChannelInput (joined_state\<lparr> dataChannelInput := [],
         dataChannelOutput := ''        ME: hello\<newline>'' \<rparr>) = [] \<and>
   dataChannelOutput (joined_state\<lparr> dataChannelInput := [],
         dataChannelOutput := ''        ME: hello\<newline>'' \<rparr>) = ''        ME: hello\<newline>''"
proof -
  have s: "sendMessage (joined_state\<lparr> dataChannelInput := ''hello'' \<rparr>) =
     (Inl TypeError, joined_state\<lparr> dataChannelInput := [],
         dataChannelOutput := ''        ME: hello\<newline>'' \<rparr>)"
    by (simp add: sendMessage_def dataChannel_send_def sample_defs)
  from s sendMessage_not_atomic [OF s] show ?thesis by simp
qed

end
